theory Spec2Isabelle
  imports Main "HOL-Library.Sublist"
begin

section \<open>Data model of the chat page\<close>

text \<open>
  JavaScript numbers that hold row ids, thread ids and millisecond timestamps are modelled
  as \<open>int\<close>; a \<open>Date\<close> is its millisecond timestamp. An optional field
  (\<open>thread_id?: number\<close>) is an \<open>option\<close>, with \<open>None\<close> for
  \<open>undefined\<close>, so that \<open>===\<close> on two optional fields is equality of options.
  Field names carry a prefix because the three message types share the names
  \<open>id\<close>, \<open>role\<close> and \<open>content\<close>.
\<close>

text \<open>A row of the \<open>chat_messages\<close> table, as the synced collection delivers it
  (type \<open>Message\<close>; every column is \<open>notNull\<close> in the schema).\<close>

record Message =
  m_id :: int
  m_thread_id :: int
  m_role :: string
  m_content :: string
  m_created_at :: int

text \<open>A row of the \<open>chat_threads\<close> table.\<close>

record ChatThread =
  t_id :: int
  t_title :: string
  t_user_id :: string
  t_created_at :: int

text \<open>\<open>role: "user" | "assistant"\<close> of a guest message.\<close>

datatype Role = User | Assistant

fun roleStr :: "Role \<Rightarrow> string" where
  "roleStr User = ''user''"
| "roleStr Assistant = ''assistant''"

record GuestMessage =
  g_id :: int
  g_role :: Role
  g_content :: string

record DisplayMessage =
  d_id :: int
  d_role :: string
  d_content :: string
  d_thread_id :: "int option"
  d_created_at :: "int option"

text \<open>A \<open>Message\<close> used where a \<open>DisplayMessage\<close> is expected
  (\<open>baseMessages = dbMessages\<close>): the same fields, the optional ones present.\<close>

definition asDisplay :: "Message \<Rightarrow> DisplayMessage" where
  "asDisplay m =
     \<lparr>d_id = m_id m, d_role = m_role m, d_content = m_content m,
      d_thread_id = Some (m_thread_id m), d_created_at = Some (m_created_at m)\<rparr>"

text \<open>The guest message as the view shows it: \<open>{ id, role, content }\<close>.\<close>

definition guestDisplay :: "GuestMessage \<Rightarrow> DisplayMessage" where
  "guestDisplay m =
     \<lparr>d_id = g_id m, d_role = roleStr (g_role m), d_content = g_content m,
      d_thread_id = None, d_created_at = None\<rparr>"

text \<open>The ephemeral entry of the streaming assistant response, with the sentinel id -1.\<close>

definition streamingMessage :: "string \<Rightarrow> DisplayMessage" where
  "streamingMessage streamingContent =
     \<lparr>d_id = - 1, d_role = ''assistant'', d_content = streamingContent,
      d_thread_id = None, d_created_at = None\<rparr>"

text \<open>The tuple that identifies a logical message.\<close>

definition msgKey :: "DisplayMessage \<Rightarrow> int option \<times> string \<times> string" where
  "msgKey m = (d_thread_id m, d_role m, d_content m)"

section \<open>The live queries\<close>

text \<open>
  \<open>useLiveQuery\<close> over the messages collection: \<open>orderBy created_at\<close>, then
  \<open>where thread_id = -1\<close> for a guest or while no thread is active, else
  \<open>where thread_id = activeThreadId\<close>. The query is read as what it denotes: the
  rows of the collection sorted by \<open>created_at\<close> (rows with equal timestamps keep
  their order) and filtered, with the values that \<open>isAuthenticated\<close> and
  \<open>activeThreadId\<close> have in the state the view is computed in.
\<close>

definition dbMessages :: "bool \<Rightarrow> int option \<Rightarrow> Message list \<Rightarrow> Message list" where
  "dbMessages isAuthenticated activeThreadId rows =
     (let base = sort_key m_created_at rows in
      if \<not> isAuthenticated \<or> activeThreadId = None
      then filter (\<lambda>chatMessages. m_thread_id chatMessages = - 1) base
      else filter (\<lambda>chatMessages. Some (m_thread_id chatMessages) = activeThreadId) base)"

text \<open>\<open>useLiveQuery\<close> over the threads collection: \<open>orderBy created_at\<close>.\<close>

definition threads :: "ChatThread list \<Rightarrow> ChatThread list" where
  "threads rows = sort_key t_created_at rows"

text \<open>\<open>sortedThreads\<close>: newest id first for a signed-in user, empty for a guest.\<close>

definition sortedThreads :: "bool \<Rightarrow> ChatThread list \<Rightarrow> ChatThread list" where
  "sortedThreads isAuthenticated ths =
     (if isAuthenticated then sort_key (\<lambda>t. - t_id t) ths else [])"

section \<open>Reconciliation of the pending buffer\<close>

text \<open>\<open>dbMessages.some(m => m.role === pending.role && m.content === pending.content
  && m.thread_id === pending.thread_id)\<close>.\<close>

definition isSynced :: "Message list \<Rightarrow> DisplayMessage \<Rightarrow> bool" where
  "isSynced dbMsgs pending =
     list_ex (\<lambda>m. m_role m = d_role pending \<and> m_content m = d_content pending \<and>
                  Some (m_thread_id m) = d_thread_id pending) dbMsgs"

text \<open>
  The body of the reconcile effect, as the value of \<open>pendingMessages\<close> after it ran:
  nothing happens on an empty buffer, and \<open>setPendingMessages\<close> is only called when
  the filter dropped something.
\<close>

definition reconcile :: "Message list \<Rightarrow> DisplayMessage list \<Rightarrow> DisplayMessage list" where
  "reconcile dbMsgs pendingMessages =
     (if length pendingMessages = 0 then pendingMessages
      else
        let stillPending = filter (\<lambda>pending. \<not> isSynced dbMsgs pending) pendingMessages in
        if length stillPending \<noteq> length pendingMessages then stillPending
        else pendingMessages)"

section \<open>The merged view\<close>

text \<open>\<open>msgs.some(...)\<close> of the merge loop.\<close>

definition alreadyExists :: "DisplayMessage list \<Rightarrow> DisplayMessage \<Rightarrow> bool" where
  "alreadyExists msgs pending =
     list_ex (\<lambda>m. d_role m = d_role pending \<and> d_content m = d_content pending \<and>
                  d_thread_id m = d_thread_id pending) msgs"

text \<open>The loop \<open>for (const pending of pendingMessages)\<close> over the growing list
  \<open>msgs\<close>.\<close>

fun addPending :: "DisplayMessage list \<Rightarrow> DisplayMessage list \<Rightarrow> DisplayMessage list" where
  "addPending msgs [] = msgs"
| "addPending msgs (pending # rest) =
     addPending (if \<not> alreadyExists msgs pending then msgs @ [pending] else msgs) rest"

definition baseMessages ::
  "bool \<Rightarrow> int option \<Rightarrow> GuestMessage list \<Rightarrow> Message list \<Rightarrow> DisplayMessage list" where
  "baseMessages isAuthenticated activeThreadId guestMessages dbMsgs =
     (if \<not> isAuthenticated then map guestDisplay guestMessages
      else if activeThreadId \<noteq> None then map asDisplay dbMsgs
      else [])"

text \<open>What \<open>if (streamingContent) msgs.push(...)\<close> appends: the empty string is falsy.\<close>

definition streamingPart :: "string \<Rightarrow> DisplayMessage list" where
  "streamingPart streamingContent =
     (if streamingContent \<noteq> [] then [streamingMessage streamingContent] else [])"

definition allMessages ::
  "bool \<Rightarrow> int option \<Rightarrow> GuestMessage list \<Rightarrow> Message list \<Rightarrow> DisplayMessage list \<Rightarrow>
   string \<Rightarrow> DisplayMessage list" where
  "allMessages isAuthenticated activeThreadId guestMessages dbMsgs pendingMessages
       streamingContent =
     (let msgs = addPending
                   (baseMessages isAuthenticated activeThreadId guestMessages dbMsgs)
                   pendingMessages
      in msgs @ streamingPart streamingContent)"

text \<open>The pending entries that the merge loop appended behind a base list.\<close>

definition pendingShown :: "DisplayMessage list \<Rightarrow> DisplayMessage list \<Rightarrow> DisplayMessage list" where
  "pendingShown base pendingMessages = drop (length base) (addPending base pendingMessages)"

section \<open>The mutation submitter\<close>

text \<open>
  What a \<open>fetch\<close> can come to: the promise rejects (no connection), or a response
  arrives with a status and a body. The body is \<open>None\<close> when it cannot be read as
  what the caller expects (\<open>res.json()\<close> rejects; \<open>res.body\<close> is null).
\<close>

datatype 'a FetchOutcome = FetchRejected | Response nat "'a option"

text \<open>\<open>res.ok\<close>: the status is in the range 200 to 299.\<close>

definition ok :: "nat \<Rightarrow> bool" where
  "ok status = (200 \<le> status \<and> status \<le> 299)"

text \<open>
  Everything the chat page can throw, one constructor for each \<open>throw\<close> of the
  source and one for each promise that can reject:
  \<open>FetchFailed\<close> is \<open>fetch\<close> rejecting,
  \<open>FailedToCreateChat\<close> is \<open>new Error("Failed to create chat")\<close>,
  \<open>FailedToAddMessage\<close> is \<open>new Error("Failed to add message")\<close>,
  \<open>AiRequestFailed status\<close> is \<open>new Error(`AI request failed: ${res.status}`)\<close>,
  \<open>NoResponseBody\<close> is \<open>new Error("No response body")\<close>,
  \<open>BadJson\<close> is \<open>res.json()\<close> rejecting and
  \<open>ReadError\<close> is \<open>reader.read()\<close> rejecting.
\<close>

datatype ChatError =
    FetchFailed
  | FailedToCreateChat
  | FailedToAddMessage
  | AiRequestFailed nat
  | NoResponseBody
  | BadJson
  | ReadError

text \<open>The JSON of a created thread; \<open>created_at\<close> is \<open>None\<close> when the field
  is absent or the empty string (both falsy).\<close>

record ThreadJson =
  tj_id :: int
  tj_title :: string
  tj_created_at :: "int option"

record CreatedThread =
  cr_id :: int
  cr_title :: string
  cr_created_at :: int

record MessageJson =
  mj_id :: int
  mj_thread_id :: int
  mj_role :: string
  mj_content :: string
  mj_created_at :: "int option"

text \<open>\<open>createThread\<close>: one POST; \<open>now\<close> is the clock read by \<open>new Date()\<close>.\<close>

definition createThread :: "string \<Rightarrow> int \<Rightarrow> ThreadJson FetchOutcome \<Rightarrow> ChatError + CreatedThread" where
  "createThread title now res =
     (case res of
        FetchRejected \<Rightarrow> Inl FetchFailed
      | Response status body \<Rightarrow>
          if \<not> ok status then Inl FailedToCreateChat
          else (case body of
                  None \<Rightarrow> Inl BadJson
                | Some json \<Rightarrow>
                    Inr \<lparr>cr_id = tj_id json, cr_title = tj_title json,
                         cr_created_at =
                           (case tj_created_at json of Some d \<Rightarrow> d | None \<Rightarrow> now)\<rparr>))"

text \<open>\<open>addMessage\<close>: one POST as well.\<close>

definition addMessage :: "int \<Rightarrow> MessageJson FetchOutcome \<Rightarrow> ChatError + Message" where
  "addMessage now res =
     (case res of
        FetchRejected \<Rightarrow> Inl FetchFailed
      | Response status body \<Rightarrow>
          if \<not> ok status then Inl FailedToAddMessage
          else (case body of
                  None \<Rightarrow> Inl BadJson
                | Some json \<Rightarrow>
                    Inr \<lparr>m_id = mj_id json, m_thread_id = mj_thread_id json,
                         m_role = mj_role json, m_content = mj_content json,
                         m_created_at =
                           (case mj_created_at json of Some d \<Rightarrow> d | None \<Rightarrow> now)\<rparr>))"

section \<open>The state of the chat page and \<open>handleSend\<close>\<close>

definition FREE_REQUEST_LIMIT :: int where
  "FREE_REQUEST_LIMIT = 1"

text \<open>
  The state of \<open>ChatPage\<close>: the session flag, one field for each \<open>useState\<close>, the
  rows of the two synced collections, and the free-request counter in
  \<open>localStorage\<close> (\<open>None\<close> while the key is unset; the page only ever stores
  \<open>count.toString()\<close>, so the stored string is modelled as the number it denotes).
\<close>

record ChatState =
  isAuthenticated :: bool
  input :: string
  isLoading :: bool
  streamingContent :: string
  guestMessages :: "GuestMessage list"
  freeRequestsUsed :: int
  showAuthPrompt :: bool
  activeThreadId :: "int option"
  pendingMessages :: "DisplayMessage list"
  selectedModel :: string
  darkMode :: bool
  threadRows :: "ChatThread list"
  messageRows :: "Message list"
  freeRequestStore :: "int option"

text \<open>The list handed to \<open>ChatLayout\<close> in a state.\<close>

definition View :: "ChatState \<Rightarrow> DisplayMessage list" where
  "View s =
     allMessages (isAuthenticated s) (activeThreadId s) (guestMessages s)
       (dbMessages (isAuthenticated s) (activeThreadId s) (messageRows s))
       (pendingMessages s) (streamingContent s)"

text \<open>
  The effect that follows the session: a signed-in page with no active thread opens the
  newest thread, and a page without a session resets \<open>activeThreadId\<close> to
  \<open>null\<close>. It sets nothing else.
\<close>

definition selectThreadEffect :: "ChatState \<Rightarrow> ChatState" where
  "selectThreadEffect s =
     (let s1 = (if isAuthenticated s \<and> activeThreadId s = None
                then (case sortedThreads (isAuthenticated s) (threads (threadRows s)) of
                        [] \<Rightarrow> s
                      | newest # _ \<Rightarrow> s\<lparr>activeThreadId := Some (t_id newest)\<rparr>)
                else s)
      in if \<not> isAuthenticated s then s1\<lparr>activeThreadId := None\<rparr> else s1)"

text \<open>The reconcile effect on a state: the pass runs against the result of the message
  query of that state.\<close>

definition reconcileEffect :: "ChatState \<Rightarrow> ChatState" where
  "reconcileEffect s =
     s\<lparr>pendingMessages :=
         reconcile (dbMessages (isAuthenticated s) (activeThreadId s) (messageRows s))
           (pendingMessages s)\<rparr>"

definition getFreeRequestCount :: "ChatState \<Rightarrow> int" where
  "getFreeRequestCount s = (case freeRequestStore s of None \<Rightarrow> 0 | Some n \<Rightarrow> n)"

text \<open>
  \<open>String.prototype.trim\<close> on the ASCII white space and line terminators (tab, line
  feed, vertical tab, form feed, carriage return, space); the non-ASCII white space of
  ECMAScript is outside this model of strings.
\<close>

definition isSpace :: "char \<Rightarrow> bool" where
  "isSpace c = (c \<in> set [CHR 0x09, CHR 0x0A, CHR 0x0B, CHR 0x0C, CHR 0x0D, CHR 0x20])"

definition trim :: "string \<Rightarrow> string" where
  "trim s = rev (dropWhile isSpace (rev (dropWhile isSpace s)))"

text \<open>A request sent over the network, with what the page puts in its body.\<close>

datatype NetCall =
    CreateThreadCall string
  | AddMessageCall int string string
  | GuestChatCall "(string \<times> string) list" string
  | AiChatCall int "(string \<times> string) list" string

text \<open>Telling the two mutation requests from the others.\<close>

fun isCreateThreadCall :: "NetCall \<Rightarrow> bool" where
  "isCreateThreadCall (CreateThreadCall title) = True"
| "isCreateThreadCall _ = False"

fun isAddMessageCall :: "NetCall \<Rightarrow> bool" where
  "isAddMessageCall (AddMessageCall threadId role content) = True"
| "isAddMessageCall _ = False"

text \<open>How a response stream ends: \<open>done\<close>, or \<open>reader.read()\<close> rejects.\<close>

datatype StreamEnd = Done | Aborted

type_synonym StreamBody = "string list \<times> StreamEnd"

text \<open>
  What the outside world answers during one \<open>handleSend\<close>: the clock at each
  \<open>Date.now()\<close> and \<open>new Date()\<close>, and the outcome of each request.
\<close>

record Env =
  nowUserId :: int
  nowUserCreated :: int
  nowAsstId :: int
  nowAsstCreated :: int
  nowThread :: int
  nowMessage :: int
  threadReply :: "ThreadJson FetchOutcome"
  messageReply :: "MessageJson FetchOutcome"
  aiReply :: "StreamBody FetchOutcome"

text \<open>The read loop: each chunk is appended to \<open>accumulated\<close> and published.\<close>

fun readLoop :: "string list \<Rightarrow> string \<Rightarrow> ChatState \<Rightarrow> string \<times> ChatState" where
  "readLoop [] accumulated st = (accumulated, st)"
| "readLoop (chunk # later) accumulated st =
     readLoop later (accumulated @ chunk) (st\<lparr>streamingContent := accumulated @ chunk\<rparr>)"

text \<open>
  From the response of the completion endpoint to the accumulated text. The guest path and
  the signed-in path of the source hold the same lines, from \<open>if (!res.ok)\<close> to the end
  of the loop.
\<close>

definition readResponse ::
  "StreamBody FetchOutcome \<Rightarrow> ChatState \<Rightarrow> (ChatError + string) \<times> ChatState" where
  "readResponse res st =
     (case res of
        FetchRejected \<Rightarrow> (Inl FetchFailed, st)
      | Response status body \<Rightarrow>
          if \<not> ok status then (Inl (AiRequestFailed status), st)
          else (case body of
                  None \<Rightarrow> (Inl NoResponseBody, st)
                | Some (chunks, ending) \<Rightarrow>
                    (case readLoop chunks [] st of
                       (accumulated, st') \<Rightarrow>
                         (case ending of
                            Done \<Rightarrow> (Inr accumulated, st')
                          | Aborted \<Rightarrow> (Inl ReadError, st')))))"

definition newUserMsg :: "Env \<Rightarrow> string \<Rightarrow> GuestMessage" where
  "newUserMsg env userMessage =
     \<lparr>g_id = nowUserId env, g_role = User, g_content = userMessage\<rparr>"

definition newAssistantMsg :: "Env \<Rightarrow> string \<Rightarrow> GuestMessage" where
  "newAssistantMsg env accumulated =
     \<lparr>g_id = nowAsstId env + 1, g_role = Assistant, g_content = accumulated\<rparr>"

definition pendingUserMsg :: "Env \<Rightarrow> string \<Rightarrow> int \<Rightarrow> DisplayMessage" where
  "pendingUserMsg env userMessage threadId =
     \<lparr>d_id = nowUserId env, d_role = ''user'', d_content = userMessage,
      d_thread_id = Some threadId, d_created_at = Some (nowUserCreated env)\<rparr>"

definition pendingAssistantMsg :: "Env \<Rightarrow> string \<Rightarrow> int \<Rightarrow> DisplayMessage" where
  "pendingAssistantMsg env accumulated threadId =
     \<lparr>d_id = nowAsstId env + 1, d_role = ''assistant'', d_content = accumulated,
      d_thread_id = Some threadId, d_created_at = Some (nowAsstCreated env)\<rparr>"

text \<open>
  The \<open>try\<close> block of the guest path. \<open>s\<close> is the state the handler closed over
  (\<open>guestMessages\<close> and \<open>selectedModel\<close> are read from it), \<open>st\<close> the state the
  setters act on. The result is the error thrown, if any, the state and the requests sent.
\<close>

definition guestTry ::
  "Env \<Rightarrow> ChatState \<Rightarrow> string \<Rightarrow> ChatState \<Rightarrow> ChatError option \<times> ChatState \<times> NetCall list" where
  "guestTry env s userMessage st =
     (let st1 = st\<lparr>guestMessages := guestMessages st @ [newUserMsg env userMessage]\<rparr>;
          messages = map (\<lambda>m. (roleStr (g_role m), g_content m)) (guestMessages s)
                       @ [(''user'', userMessage)];
          sent = [GuestChatCall messages (selectedModel s)]
      in case readResponse (aiReply env) st1 of
           (Inl e, st2) \<Rightarrow> (Some e, st2, sent)
         | (Inr accumulated, st2) \<Rightarrow>
             let st3 = st2\<lparr>guestMessages :=
                             guestMessages st2 @ [newAssistantMsg env accumulated],
                           streamingContent := []\<rparr>;
                 newCount = getFreeRequestCount st3 + 1;
                 st4 = st3\<lparr>freeRequestStore := Some newCount, freeRequestsUsed := newCount\<rparr>;
                 st5 = (if newCount \<ge> FREE_REQUEST_LIMIT then st4\<lparr>showAuthPrompt := True\<rparr>
                        else st4)
             in (None, st5, sent))"

text \<open>
  The start of the signed-in \<open>try\<close> block: \<open>if (!threadId)\<close> holds for \<open>null\<close> and
  for 0, and then a thread is created, titled with the first 40 characters of the message
  (\<open>"New chat"\<close> if those are empty).
\<close>

definition threadTitle :: "string \<Rightarrow> string" where
  "threadTitle userMessage =
     (if take 40 userMessage = [] then ''New chat'' else take 40 userMessage)"

definition createForSend ::
  "Env \<Rightarrow> string \<Rightarrow> ChatState \<Rightarrow> (ChatError + int) \<times> ChatState \<times> NetCall list" where
  "createForSend env userMessage st =
     (case createThread (threadTitle userMessage) (nowThread env) (threadReply env) of
        Inl e \<Rightarrow> (Inl e, st, [CreateThreadCall (threadTitle userMessage)])
      | Inr thread \<Rightarrow>
          (Inr (cr_id thread), st\<lparr>activeThreadId := Some (cr_id thread)\<rparr>,
           [CreateThreadCall (threadTitle userMessage)]))"

definition obtainThread ::
  "Env \<Rightarrow> ChatState \<Rightarrow> string \<Rightarrow> ChatState \<Rightarrow> (ChatError + int) \<times> ChatState \<times> NetCall list" where
  "obtainThread env s userMessage st =
     (case activeThreadId s of
        None \<Rightarrow> createForSend env userMessage st
      | Some threadId \<Rightarrow>
          if threadId = 0 then createForSend env userMessage st
          else (Inr threadId, st, []))"

text \<open>The rest of the signed-in \<open>try\<close> block.\<close>

definition authTry ::
  "Env \<Rightarrow> ChatState \<Rightarrow> string \<Rightarrow> ChatState \<Rightarrow> ChatError option \<times> ChatState \<times> NetCall list" where
  "authTry env s userMessage st =
     (case obtainThread env s userMessage st of
        (Inl e, st1, sent1) \<Rightarrow> (Some e, st1, sent1)
      | (Inr threadId, st1, sent1) \<Rightarrow>
          (let st2 = st1\<lparr>pendingMessages :=
                           pendingMessages st1 @ [pendingUserMsg env userMessage threadId]\<rparr>;
               sent2 = sent1 @ [AddMessageCall threadId ''user'' userMessage]
           in (case addMessage (nowMessage env) (messageReply env) of
                 Inl e \<Rightarrow> (Some e, st2, sent2)
               | Inr _ \<Rightarrow>
                   (let threadMessages =
                          filter (\<lambda>m. m_thread_id m = threadId)
                            (dbMessages (isAuthenticated s) (activeThreadId s) (messageRows s));
                        messages = map (\<lambda>m. (m_role m, m_content m)) threadMessages
                                     @ [(''user'', userMessage)];
                        sent3 = sent2 @ [AiChatCall threadId messages (selectedModel s)]
                    in (case readResponse (aiReply env) st2 of
                          (Inl e, st3) \<Rightarrow> (Some e, st3, sent3)
                        | (Inr accumulated, st3) \<Rightarrow>
                            (let st4 = (if accumulated \<noteq> []
                                        then st3\<lparr>pendingMessages :=
                                                   pendingMessages st3
                                                     @ [pendingAssistantMsg env accumulated threadId]\<rparr>
                                        else st3)
                             in (None, st4\<lparr>streamingContent := []\<rparr>, sent3)))))))"

text \<open>What \<open>handleSend\<close> leaves behind: the state, the requests sent, and the error
  that reached \<open>console.error\<close>, if one was caught.\<close>

record SendResult =
  state :: ChatState
  calls :: "NetCall list"
  logged :: "ChatError option"

text \<open>\<open>catch\<close> clears the streaming content; \<open>finally\<close> clears \<open>isLoading\<close>.\<close>

definition catchFinally :: "ChatError option \<times> ChatState \<times> NetCall list \<Rightarrow> SendResult" where
  "catchFinally r =
     (case r of
        (err, st, sent) \<Rightarrow>
          \<lparr>state = (case err of None \<Rightarrow> st | Some e \<Rightarrow> st\<lparr>streamingContent := []\<rparr>)
                     \<lparr>isLoading := False\<rparr>,
           calls = sent, logged = err\<rparr>)"

text \<open>
  \<open>handleSend\<close>, run to its end with no other event in between: the setters act in
  program order on the state, and the values the handler closed over are those of the
  state \<open>s\<close> it was called in.
\<close>

definition handleSend :: "Env \<Rightarrow> ChatState \<Rightarrow> SendResult" where
  "handleSend env s =
     (if trim (input s) = [] \<or> isLoading s then \<lparr>state = s, calls = [], logged = None\<rparr>
      else
        let userMessage = trim (input s);
            st = s\<lparr>input := [], isLoading := True, streamingContent := []\<rparr>
        in if \<not> isAuthenticated s then
             (if freeRequestsUsed s \<ge> FREE_REQUEST_LIMIT
              then \<lparr>state = st\<lparr>showAuthPrompt := True, isLoading := False\<rparr>,
                    calls = [], logged = None\<rparr>
              else catchFinally (guestTry env s userMessage st))
           else catchFinally (authTry env s userMessage st))"

section \<open>Example data\<close>

text \<open>Thread 7 of the scenario: a confirmed greeting, the confirmed \<open>Hello\<close> with
  id 101, and a row of another thread.\<close>

definition exWelcome :: Message where
  "exWelcome = \<lparr>m_id = 100, m_thread_id = 7, m_role = ''assistant'',
                 m_content = ''Welcome'', m_created_at = 1000\<rparr>"

definition exHello :: Message where
  "exHello = \<lparr>m_id = 101, m_thread_id = 7, m_role = ''user'',
               m_content = ''Hello'', m_created_at = 2000\<rparr>"

definition exOther :: Message where
  "exOther = \<lparr>m_id = 102, m_thread_id = 8, m_role = ''user'',
               m_content = ''Elsewhere'', m_created_at = 1500\<rparr>"

text \<open>Optimistic entries: \<open>Hello\<close> sent twice in thread 7, and \<open>World\<close>.\<close>

definition pendHello :: DisplayMessage where
  "pendHello = \<lparr>d_id = 5000, d_role = ''user'', d_content = ''Hello'',
                 d_thread_id = Some 7, d_created_at = Some 1900\<rparr>"

definition pendHelloAgain :: DisplayMessage where
  "pendHelloAgain = \<lparr>d_id = 5001, d_role = ''user'', d_content = ''Hello'',
                      d_thread_id = Some 7, d_created_at = Some 1950\<rparr>"

definition pendWorld :: DisplayMessage where
  "pendWorld = \<lparr>d_id = 5002, d_role = ''user'', d_content = ''World'',
                 d_thread_id = Some 7, d_created_at = Some 2100\<rparr>"

text \<open>A guest page before the first message, and the same page signed in with
  thread 7 open.\<close>

definition guest0 :: ChatState where
  "guest0 = \<lparr>isAuthenticated = False, input = '' Hi '', isLoading = False,
              streamingContent = [], guestMessages = [], freeRequestsUsed = 0,
              showAuthPrompt = False, activeThreadId = None, pendingMessages = [],
              selectedModel = ''openai/gpt-4o'', darkMode = False, threadRows = [],
              messageRows = [], freeRequestStore = None\<rparr>"

definition signedIn0 :: ChatState where
  "signedIn0 = guest0\<lparr>isAuthenticated := True, activeThreadId := Some 7,
                        messageRows := [exOther, exWelcome]\<rparr>"

text \<open>A world in which every request succeeds and the answer streams in two chunks,
  and one in which the stream breaks after the first chunk.\<close>

definition envOk :: Env where
  "envOk = \<lparr>nowUserId = 9000, nowUserCreated = 9001, nowAsstId = 9500,
             nowAsstCreated = 9501, nowThread = 8900, nowMessage = 9100,
             threadReply = Response 200 (Some \<lparr>tj_id = 7, tj_title = ''Hi'',
                                               tj_created_at = None\<rparr>),
             messageReply = Response 200 (Some \<lparr>mj_id = 103, mj_thread_id = 7,
                                                mj_role = ''user'', mj_content = ''Hi'',
                                                mj_created_at = Some 9050\<rparr>),
             aiReply = Response 200 (Some ([''Hel'', ''lo''], Done))\<rparr>"

definition envAbort :: Env where
  "envAbort = envOk\<lparr>aiReply := Response 200 (Some ([''Hel''], Aborted))\<rparr>"

text \<open>
  The signed-in page after one answered message, whose session then ends: the session flag
  drops and the effect that follows the session runs. \<open>exHi\<close> is the confirmed row of
  the message sent.
\<close>

definition signedOut0 :: ChatState where
  "signedOut0 =
     selectThreadEffect ((state (handleSend envOk signedIn0))\<lparr>isAuthenticated := False\<rparr>)"

definition exHi :: Message where
  "exHi = \<lparr>m_id = 103, m_thread_id = 7, m_role = ''user'',
            m_content = ''Hi'', m_created_at = 9050\<rparr>"

section \<open>Helper lemmas\<close>

lemma isSynced_iff:
  "isSynced dbMsgs p \<longleftrightarrow>
     (\<exists>m\<in>set dbMsgs. m_role m = d_role p \<and> m_content m = d_content p \<and>
        Some (m_thread_id m) = d_thread_id p)"
  by (simp add: isSynced_def list_ex_iff)

lemma reconcile_filter:
  "reconcile dbMsgs pend = filter (\<lambda>p. \<not> isSynced dbMsgs p) pend"
proof (cases "length (filter (\<lambda>p. \<not> isSynced dbMsgs p) pend) = length pend")
  case True
  then have "filter (\<lambda>p. \<not> isSynced dbMsgs p) pend = pend"
    by (metis length_filter_less less_irrefl filter_id_conv)
  with True show ?thesis by (simp add: reconcile_def)
next
  case False
  then have "pend \<noteq> []" by auto
  with False show ?thesis by (simp add: reconcile_def Let_def)
qed

lemma alreadyExists_iff: "alreadyExists msgs p \<longleftrightarrow> msgKey p \<in> msgKey ` set msgs"
proof -
  have "alreadyExists msgs p \<longleftrightarrow> (\<exists>m\<in>set msgs. msgKey m = msgKey p)"
    by (simp add: alreadyExists_def list_ex_iff msgKey_def conj_ac)
  also have "\<dots> \<longleftrightarrow> msgKey p \<in> msgKey ` set msgs"
    by (metis (no_types) image_iff)
  finally show ?thesis .
qed

text \<open>The merge loop keeps the list it starts from and appends entries of the buffer whose
  keys are new, each key once.\<close>

lemma addPending_shape:
  "\<exists>ys. addPending msgs ps = msgs @ ys \<and> set ys \<subseteq> set ps \<and>
        (\<forall>y\<in>set ys. msgKey y \<notin> msgKey ` set msgs) \<and> distinct (map msgKey ys)"
proof (induction ps arbitrary: msgs)
  case Nil
  show ?case by simp
next
  case (Cons p ps)
  show ?case
  proof (cases "alreadyExists msgs p")
    case True
    from Cons.IH [of msgs] obtain ys where
      "addPending msgs ps = msgs @ ys" "set ys \<subseteq> set ps"
      "\<forall>y\<in>set ys. msgKey y \<notin> msgKey ` set msgs" "distinct (map msgKey ys)"
      by blast
    with True show ?thesis by auto
  next
    case False
    from Cons.IH [of "msgs @ [p]"] obtain ys where ys:
      "addPending (msgs @ [p]) ps = (msgs @ [p]) @ ys" "set ys \<subseteq> set ps"
      "\<forall>y\<in>set ys. msgKey y \<notin> msgKey ` set (msgs @ [p])" "distinct (map msgKey ys)"
      by blast
    have "addPending msgs (p # ps) = msgs @ (p # ys)"
      using False ys(1) by simp
    moreover have "set (p # ys) \<subseteq> set (p # ps)"
      using ys(2) by auto
    moreover have "\<forall>y\<in>set (p # ys). msgKey y \<notin> msgKey ` set msgs"
      using False ys(3) by (auto simp add: alreadyExists_iff)
    moreover have "distinct (map msgKey (p # ys))"
      using ys(3,4) by auto
    ultimately show ?thesis by blast
  qed
qed

lemma addPending_split: "addPending msgs ps = msgs @ pendingShown msgs ps"
  using addPending_shape [of msgs ps] by (auto simp add: pendingShown_def)

lemma pendingShown_props:
  "set (pendingShown msgs ps) \<subseteq> set ps"
  "\<forall>y\<in>set (pendingShown msgs ps). msgKey y \<notin> msgKey ` set msgs"
  "distinct (map msgKey (pendingShown msgs ps))"
  using addPending_shape [of msgs ps] by (auto simp add: pendingShown_def)

lemma allMessages_split:
  "allMessages a t g d p s =
     baseMessages a t g d @ pendingShown (baseMessages a t g d) p @ streamingPart s"
  using addPending_split [of "baseMessages a t g d" p] by (simp add: allMessages_def)

lemma sorted_dbMessages: "sorted (map m_created_at (dbMessages a t rows))"
  by (simp add: dbMessages_def Let_def sorted_filter)

text \<open>The read loop returns the concatenation of the chunks and leaves it published.\<close>

lemma readLoop_fst: "fst (readLoop chunks acc st) = acc @ concat chunks"
  by (induction chunks arbitrary: acc st) simp_all

lemma readLoop_snd:
  "snd (readLoop chunks acc st) =
     (if chunks = [] then st else st\<lparr>streamingContent := acc @ concat chunks\<rparr>)"
  by (induction chunks arbitrary: acc st) simp_all

lemma readLoop_eq:
  "readLoop chunks acc st =
     (acc @ concat chunks,
      if chunks = [] then st else st\<lparr>streamingContent := acc @ concat chunks\<rparr>)"
  using readLoop_fst [of chunks acc st] readLoop_snd [of chunks acc st]
  by (metis prod.collapse)

lemma readResponse_aborted:
  "readResponse (Response status (Some (chunks, Aborted))) st =
     (if \<not> ok status then (Inl (AiRequestFailed status), st)
      else (Inl ReadError, if chunks = [] then st else st\<lparr>streamingContent := concat chunks\<rparr>))"
  by (simp add: readResponse_def readLoop_eq)

lemma guestTry_aborted:
  assumes "aiReply env = Response status (Some (chunks, Aborted))"
  shows "\<exists>e st' sent. guestTry env s u st = (Some e, st', sent) \<and>
           guestMessages st' = guestMessages st @ [newUserMsg env u] \<and>
           pendingMessages st' = pendingMessages st"
  using assms by (simp add: guestTry_def Let_def readResponse_aborted)

lemma obtainThread_cases:
  "(\<exists>e sent. obtainThread env s u st = (Inl e, st, sent)) \<or>
   (\<exists>tid sent. obtainThread env s u st = (Inr tid, st, sent)) \<or>
   (\<exists>tid sent. obtainThread env s u st = (Inr tid, st\<lparr>activeThreadId := Some tid\<rparr>, sent))"
  by (auto simp add: obtainThread_def createForSend_def split: sum.splits option.splits)

lemma authTry_aborted:
  assumes "aiReply env = Response status (Some (chunks, Aborted))"
  shows "\<exists>e st' sent. authTry env s u st = (Some e, st', sent) \<and>
           guestMessages st' = guestMessages st \<and>
           (pendingMessages st' = pendingMessages st \<or>
            (\<exists>tid. pendingMessages st' = pendingMessages st @ [pendingUserMsg env u tid]))"
  using assms obtainThread_cases [of env s u st]
  by (auto simp add: authTry_def Let_def readResponse_aborted split: sum.splits)

text \<open>Each mutation is requested at most once during a \<open>handleSend\<close>.\<close>

lemma obtainThread_calls:
  "length (filter isCreateThreadCall (snd (snd (obtainThread env s u st)))) \<le> 1 \<and>
   filter isAddMessageCall (snd (snd (obtainThread env s u st))) = []"
  by (simp add: obtainThread_def createForSend_def split: sum.splits option.splits)

lemma authTry_calls:
  "length (filter isCreateThreadCall (snd (snd (authTry env s u st)))) \<le> 1 \<and>
   length (filter isAddMessageCall (snd (snd (authTry env s u st)))) \<le> 1"
  using obtainThread_calls [of env s u st]
  by (auto simp add: authTry_def Let_def split: prod.splits sum.splits)

lemma guestTry_calls:
  "filter isCreateThreadCall (snd (snd (guestTry env s u st))) = [] \<and>
   filter isAddMessageCall (snd (snd (guestTry env s u st))) = []"
  by (simp add: guestTry_def Let_def split: prod.splits sum.splits)

lemma catchFinally_calls: "calls (catchFinally r) = snd (snd r)"
  by (simp add: catchFinally_def split: prod.splits)

lemma handleSend_mutation_calls:
  "length (filter isCreateThreadCall (calls (handleSend env s))) \<le> 1 \<and>
   length (filter isAddMessageCall (calls (handleSend env s))) \<le> 1"
  using authTry_calls [of env s "trim (input s)"
          "s\<lparr>input := [], isLoading := True, streamingContent := []\<rparr>"]
        guestTry_calls [of env s "trim (input s)"
          "s\<lparr>input := [], isLoading := True, streamingContent := []\<rparr>"]
  by (simp add: handleSend_def Let_def catchFinally_calls)

text \<open>The first free message of a guest, answered in full.\<close>

lemma first_guest_send:
  "state (handleSend envOk guest0) =
     guest0\<lparr>input := [], guestMessages :=
                [\<lparr>g_id = 9000, g_role = User, g_content = ''Hi''\<rparr>,
                 \<lparr>g_id = 9501, g_role = Assistant, g_content = ''Hello''\<rparr>],
            freeRequestsUsed := 1, showAuthPrompt := True, freeRequestStore := Some 1\<rparr>"
  by (simp add: handleSend_def trim_def isSpace_def guestTry_def readResponse_def ok_def
        catchFinally_def newUserMsg_def newAssistantMsg_def getFreeRequestCount_def
        FREE_REQUEST_LIMIT_def Let_def envOk_def guest0_def)

section \<open>The claims\<close>

text \<open>
  C1. In every state the merged view is the base list, then the pending entries that the
  merge loop appended, then the streaming entry. For a signed-in user with an active thread
  the base list is the confirmed entries. An appended pending entry comes from the buffer
  and its (thread_id, role, content) equals that of no base entry, and no two appended
  entries have the same tuple: an entry is appended only when no entry with equal tuple
  is in the list already.
\<close>

theorem view_no_pending_confirmed_duplicate:
  "allMessages a t g d p s =
     baseMessages a t g d @ pendingShown (baseMessages a t g d) p @ streamingPart s
   \<and> (a \<and> t \<noteq> None \<longrightarrow> baseMessages a t g d = map asDisplay d)
   \<and> (\<forall>x\<in>set (pendingShown (baseMessages a t g d) p).
         x \<in> set p \<and> msgKey x \<notin> msgKey ` set (baseMessages a t g d))
   \<and> distinct (map msgKey (pendingShown (baseMessages a t g d) p))"
  using pendingShown_props [of "baseMessages a t g d" p]
  by (auto simp add: allMessages_split baseMessages_def)

theorem view_no_pending_confirmed_duplicate_witness:
  "True \<and> Some (7::int) \<noteq> None
   \<and> baseMessages True (Some 7) [] [exWelcome, exHello] = map asDisplay [exWelcome, exHello]
   \<and> pendingShown (map asDisplay [exWelcome, exHello]) [pendHello, pendWorld] = [pendWorld]
   \<and> pendWorld \<in> set [pendHello, pendWorld]
   \<and> msgKey pendWorld \<notin> msgKey ` set (map asDisplay [exWelcome, exHello])
   \<and> allMessages True (Some 7) [] [exWelcome, exHello] [pendHello, pendWorld] ''Hi'' =
       [asDisplay exWelcome, asDisplay exHello, pendWorld, streamingMessage ''Hi'']"
proof -
  have shown: "pendingShown [asDisplay exWelcome, asDisplay exHello] [pendHello, pendWorld] =
                 [pendWorld]"
    by (simp add: pendingShown_def alreadyExists_def asDisplay_def exWelcome_def exHello_def
          pendHello_def pendWorld_def)
  have part: "streamingPart ''Hi'' = [streamingMessage ''Hi'']"
    by (simp add: streamingPart_def)
  have base: "baseMessages True (Some 7) [] [exWelcome, exHello] =
                [asDisplay exWelcome, asDisplay exHello]"
    by (simp add: baseMessages_def)
  from view_no_pending_confirmed_duplicate
         [of True "Some 7" "[]" "[exWelcome, exHello]" "[pendHello, pendWorld]" "''Hi''"]
  show ?thesis by (simp add: base shown part)
qed

text \<open>
  C2. A pending entry survives a reconciliation pass exactly when it is in the buffer and
  no confirmed entry has its (thread_id, role, content); so an entry with a confirmed
  match is removed by the pass. The match reads neither the id nor the timestamp of the
  pending entry or of the confirmed entries.
\<close>

theorem reconcile_removes_synced:
  "(p \<in> set (reconcile dbMsgs pend) \<longleftrightarrow>
      p \<in> set pend \<and>
      \<not> (\<exists>m\<in>set dbMsgs. m_role m = d_role p \<and> m_content m = d_content p \<and>
             Some (m_thread_id m) = d_thread_id p))
   \<and> isSynced dbMsgs (p\<lparr>d_id := i, d_created_at := c\<rparr>) = isSynced dbMsgs p
   \<and> isSynced (map (\<lambda>m. m\<lparr>m_id := f m, m_created_at := g m\<rparr>) dbMsgs) p = isSynced dbMsgs p"
  by (auto simp add: reconcile_filter isSynced_iff)

theorem reconcile_removes_synced_witness:
  "pendHello \<in> set [pendHello, pendWorld]
   \<and> exHello \<in> set [exWelcome, exHello]
   \<and> m_role exHello = d_role pendHello \<and> m_content exHello = d_content pendHello
   \<and> Some (m_thread_id exHello) = d_thread_id pendHello
   \<and> m_id exHello \<noteq> d_id pendHello
   \<and> pendHello \<notin> set (reconcile [exWelcome, exHello] [pendHello, pendWorld])"
proof -
  have a: "pendHello \<in> set [pendHello, pendWorld]" by simp
  have b: "exHello \<in> set [exWelcome, exHello]"
          "m_role exHello = d_role pendHello \<and> m_content exHello = d_content pendHello
           \<and> Some (m_thread_id exHello) = d_thread_id pendHello"
    by (simp_all add: exHello_def pendHello_def)
  have c: "m_id exHello \<noteq> d_id pendHello" by (simp add: exHello_def pendHello_def)
  from reconcile_removes_synced [of pendHello "[exWelcome, exHello]" "[pendHello, pendWorld]"]
       a b c
  show ?thesis by blast
qed

text \<open>
  C3. The confirmed entries of the live query are sorted by \<open>created_at\<close>. For a
  signed-in user with an active thread they are the first entries of the view, in that
  order, they all belong to the active thread, and everything behind them is an entry of
  the pending buffer or the streaming entry, which is last when there is one.
\<close>

theorem view_ordering:
  "sorted (map m_created_at (dbMessages a t rows))
   \<and> (a \<and> t \<noteq> None \<longrightarrow>
        take (length (dbMessages a t rows))
          (allMessages a t g (dbMessages a t rows) p s) = map asDisplay (dbMessages a t rows)
        \<and> (\<forall>m\<in>set (dbMessages a t rows). Some (m_thread_id m) = t)
        \<and> (\<forall>x\<in>set (drop (length (dbMessages a t rows))
                        (allMessages a t g (dbMessages a t rows) p s)).
              x \<in> set p \<or> x = streamingMessage s))
   \<and> (s \<noteq> [] \<longrightarrow> last (allMessages a t g (dbMessages a t rows) p s) = streamingMessage s)"
proof -
  have 1: "sorted (map m_created_at (dbMessages a t rows))" by (rule sorted_dbMessages)
  have 2: "s \<noteq> [] \<longrightarrow> last (allMessages a t g (dbMessages a t rows) p s) = streamingMessage s"
    by (simp add: allMessages_def streamingPart_def)
  have 3: "a \<and> t \<noteq> None \<longrightarrow> (\<forall>m\<in>set (dbMessages a t rows). Some (m_thread_id m) = t)"
    by (auto simp add: dbMessages_def)
  have 4: "a \<and> t \<noteq> None \<longrightarrow>
        take (length (dbMessages a t rows))
          (allMessages a t g (dbMessages a t rows) p s) = map asDisplay (dbMessages a t rows)"
    by (simp add: allMessages_split baseMessages_def)
  have 5: "a \<and> t \<noteq> None \<longrightarrow> (\<forall>x\<in>set (drop (length (dbMessages a t rows))
                        (allMessages a t g (dbMessages a t rows) p s)).
              x \<in> set p \<or> x = streamingMessage s)"
    using pendingShown_props(1) [of "map asDisplay (dbMessages a t rows)" p]
    by (auto simp add: allMessages_split baseMessages_def streamingPart_def)
  from 1 2 3 4 5 show ?thesis by blast
qed

theorem view_ordering_witness:
  "True \<and> Some (7::int) \<noteq> None \<and> ''Hi'' \<noteq> []
   \<and> dbMessages True (Some 7) [exHello, exOther, exWelcome] = [exWelcome, exHello]
   \<and> sorted (map m_created_at [exWelcome, exHello])
   \<and> allMessages True (Some 7) [] (dbMessages True (Some 7) [exHello, exOther, exWelcome])
        [pendWorld] ''Hi'' =
       [asDisplay exWelcome, asDisplay exHello, pendWorld, streamingMessage ''Hi'']
   \<and> take 2 (allMessages True (Some 7) [] (dbMessages True (Some 7) [exHello, exOther, exWelcome])
        [pendWorld] ''Hi'') = map asDisplay [exWelcome, exHello]
   \<and> last (allMessages True (Some 7) [] (dbMessages True (Some 7) [exHello, exOther, exWelcome])
        [pendWorld] ''Hi'') = streamingMessage ''Hi''"
proof -
  have db: "dbMessages True (Some 7) [exHello, exOther, exWelcome] = [exWelcome, exHello]"
    by (simp add: dbMessages_def exHello_def exOther_def exWelcome_def)
  have v: "allMessages True (Some 7) [] [exWelcome, exHello] [pendWorld] ''Hi'' =
       [asDisplay exWelcome, asDisplay exHello, pendWorld, streamingMessage ''Hi'']"
    by (simp add: allMessages_def baseMessages_def streamingPart_def alreadyExists_def
          asDisplay_def exWelcome_def exHello_def pendWorld_def)
  from view_ordering [of True "Some 7" "[exHello, exOther, exWelcome]" "[]" "[pendWorld]" "''Hi''"]
       db v
  show ?thesis by simp
qed

text \<open>
  C4. The guest view is to hold no message data of a user's threads. It does for a session
  that ends in the open page: a signed-in send in thread 7 leaves the user's message and
  the answer in the pending buffer; when the session ends, the effect that follows the
  session resets the active thread and nothing else; the guest's query is pinned to
  \<open>thread_id = -1\<close>, so the reconcile effect evicts nothing, not even once the
  confirmed row has arrived (it would for the signed-in page); and the guest view is the
  two thread-7 messages.
\<close>

theorem guest_view_after_sign_out:
  "isAuthenticated signedIn0
   \<and> pendingMessages (state (handleSend envOk signedIn0)) =
       [\<lparr>d_id = 9000, d_role = ''user'', d_content = ''Hi'', d_thread_id = Some 7,
          d_created_at = Some 9001\<rparr>,
        \<lparr>d_id = 9501, d_role = ''assistant'', d_content = ''Hello'', d_thread_id = Some 7,
          d_created_at = Some 9501\<rparr>]
   \<and> isAuthenticated signedOut0 = False
   \<and> activeThreadId signedOut0 = None
   \<and> guestMessages signedOut0 = []
   \<and> reconcileEffect signedOut0 = signedOut0
   \<and> pendingMessages (reconcileEffect (signedOut0\<lparr>messageRows := [exWelcome, exHi]\<rparr>)) =
       pendingMessages signedOut0
   \<and> pendingMessages (reconcileEffect
         ((state (handleSend envOk signedIn0))\<lparr>messageRows := [exWelcome, exHi]\<rparr>)) =
       [\<lparr>d_id = 9501, d_role = ''assistant'', d_content = ''Hello'', d_thread_id = Some 7,
          d_created_at = Some 9501\<rparr>]
   \<and> View signedOut0 =
       [\<lparr>d_id = 9000, d_role = ''user'', d_content = ''Hi'', d_thread_id = Some 7,
          d_created_at = Some 9001\<rparr>,
        \<lparr>d_id = 9501, d_role = ''assistant'', d_content = ''Hello'', d_thread_id = Some 7,
          d_created_at = Some 9501\<rparr>]"
proof -
  have sent: "state (handleSend envOk signedIn0) =
     signedIn0\<lparr>input := [], pendingMessages :=
       [\<lparr>d_id = 9000, d_role = ''user'', d_content = ''Hi'', d_thread_id = Some 7,
          d_created_at = Some 9001\<rparr>,
        \<lparr>d_id = 9501, d_role = ''assistant'', d_content = ''Hello'', d_thread_id = Some 7,
          d_created_at = Some 9501\<rparr>]\<rparr>"
    by (simp add: handleSend_def trim_def isSpace_def authTry_def obtainThread_def
          createForSend_def readResponse_def addMessage_def ok_def catchFinally_def
          pendingUserMsg_def pendingAssistantMsg_def dbMessages_def Let_def
          envOk_def signedIn0_def guest0_def exWelcome_def exOther_def)
  have out: "signedOut0 =
     signedIn0\<lparr>isAuthenticated := False, input := [], activeThreadId := None,
       pendingMessages :=
       [\<lparr>d_id = 9000, d_role = ''user'', d_content = ''Hi'', d_thread_id = Some 7,
          d_created_at = Some 9001\<rparr>,
        \<lparr>d_id = 9501, d_role = ''assistant'', d_content = ''Hello'', d_thread_id = Some 7,
          d_created_at = Some 9501\<rparr>]\<rparr>"
    unfolding signedOut0_def sent
    by (simp add: selectThreadEffect_def sortedThreads_def Let_def signedIn0_def guest0_def)
  have 1: "isAuthenticated signedIn0" by (simp add: signedIn0_def)
  have 2: "pendingMessages (state (handleSend envOk signedIn0)) =
       [\<lparr>d_id = 9000, d_role = ''user'', d_content = ''Hi'', d_thread_id = Some 7,
          d_created_at = Some 9001\<rparr>,
        \<lparr>d_id = 9501, d_role = ''assistant'', d_content = ''Hello'', d_thread_id = Some 7,
          d_created_at = Some 9501\<rparr>]"
    by (simp add: sent)
  have 3: "isAuthenticated signedOut0 = False" "activeThreadId signedOut0 = None"
    by (simp_all add: out)
  have 4: "guestMessages signedOut0 = []"
    unfolding out by (simp add: signedIn0_def guest0_def)
  have 5: "reconcileEffect signedOut0 = signedOut0"
    unfolding out
    by (simp add: reconcileEffect_def reconcile_filter isSynced_def dbMessages_def
          signedIn0_def guest0_def exWelcome_def exOther_def)
  have 6: "pendingMessages (reconcileEffect (signedOut0\<lparr>messageRows := [exWelcome, exHi]\<rparr>)) =
       pendingMessages signedOut0"
    unfolding out
    by (simp add: reconcileEffect_def reconcile_filter isSynced_def dbMessages_def
          signedIn0_def guest0_def exWelcome_def exHi_def)
  have 7: "pendingMessages (reconcileEffect
         ((state (handleSend envOk signedIn0))\<lparr>messageRows := [exWelcome, exHi]\<rparr>)) =
       [\<lparr>d_id = 9501, d_role = ''assistant'', d_content = ''Hello'', d_thread_id = Some 7,
          d_created_at = Some 9501\<rparr>]"
    unfolding sent
    by (simp add: reconcileEffect_def reconcile_filter isSynced_def dbMessages_def
          signedIn0_def guest0_def exWelcome_def exHi_def)
  have 8: "View signedOut0 =
       [\<lparr>d_id = 9000, d_role = ''user'', d_content = ''Hi'', d_thread_id = Some 7,
          d_created_at = Some 9001\<rparr>,
        \<lparr>d_id = 9501, d_role = ''assistant'', d_content = ''Hello'', d_thread_id = Some 7,
          d_created_at = Some 9501\<rparr>]"
    unfolding out
    by (simp add: View_def allMessages_def baseMessages_def streamingPart_def
          alreadyExists_def signedIn0_def guest0_def)
  from 1 2 3 4 5 6 7 8 show ?thesis by simp
qed

text \<open>
  C5. The view of a state is determined by the session flag, the active thread, the guest
  messages, the result of the message query, the pending buffer and the streaming content:
  two states that agree on these six have equal views, whatever else differs. In
  particular computing it again in the same state gives the same list.
\<close>

theorem view_deterministic:
  assumes "isAuthenticated s = isAuthenticated s'"
    and "activeThreadId s = activeThreadId s'"
    and "guestMessages s = guestMessages s'"
    and "dbMessages (isAuthenticated s) (activeThreadId s) (messageRows s) =
         dbMessages (isAuthenticated s') (activeThreadId s') (messageRows s')"
    and "pendingMessages s = pendingMessages s'"
    and "streamingContent s = streamingContent s'"
  shows "View s = View s'"
  using assms by (simp add: View_def)

theorem view_deterministic_witness:
  "View (signedIn0\<lparr>pendingMessages := [pendWorld]\<rparr>) =
   View (signedIn0\<lparr>pendingMessages := [pendWorld], input := ''typing'', isLoading := True,
                   darkMode := True, messageRows := [exWelcome, exOther]\<rparr>)
   \<and> View (signedIn0\<lparr>pendingMessages := [pendWorld]\<rparr>) = [asDisplay exWelcome, pendWorld]"
proof -
  let ?s = "signedIn0\<lparr>pendingMessages := [pendWorld]\<rparr>"
  let ?s' = "signedIn0\<lparr>pendingMessages := [pendWorld], input := ''typing'', isLoading := True,
                   darkMode := True, messageRows := [exWelcome, exOther]\<rparr>"
  have db: "dbMessages (isAuthenticated ?s) (activeThreadId ?s) (messageRows ?s) =
         dbMessages (isAuthenticated ?s') (activeThreadId ?s') (messageRows ?s')"
    by (simp add: signedIn0_def guest0_def dbMessages_def exWelcome_def exOther_def)
  have v: "View ?s = [asDisplay exWelcome, pendWorld]"
    by (simp add: View_def allMessages_def baseMessages_def streamingPart_def dbMessages_def
          alreadyExists_def asDisplay_def signedIn0_def guest0_def exWelcome_def exOther_def
          pendWorld_def)
  have "View ?s = View ?s'"
  proof (rule view_deterministic)
    show "dbMessages (isAuthenticated ?s) (activeThreadId ?s) (messageRows ?s) =
         dbMessages (isAuthenticated ?s') (activeThreadId ?s') (messageRows ?s')"
      by (rule db)
  qed simp_all
  with v show ?thesis by simp
qed

text \<open>
  C6, as the code has it. One confirmed entry removes every pending entry with its
  (thread_id, role, content) in a single pass: of two optimistic copies of the same text,
  neither is left once one confirmation has arrived.
\<close>

theorem reconcile_removes_all_copies:
  "m \<in> set dbMsgs \<Longrightarrow>
   filter (\<lambda>p. msgKey p = msgKey (asDisplay m)) (reconcile dbMsgs pend) = []"
  by (auto simp add: reconcile_filter isSynced_iff filter_empty_conv msgKey_def asDisplay_def)

theorem reconcile_removes_all_copies_witness:
  "exHello \<in> set [exHello]
   \<and> msgKey pendHello = msgKey (asDisplay exHello)
   \<and> msgKey pendHelloAgain = msgKey (asDisplay exHello)
   \<and> filter (\<lambda>p. msgKey p = msgKey (asDisplay exHello))
        (reconcile [exHello] [pendHello, pendHelloAgain, pendWorld]) = []
   \<and> reconcile [exHello] [pendHello, pendHelloAgain, pendWorld] = [pendWorld]"
proof -
  have a: "exHello \<in> set [exHello]" by simp
  have k: "msgKey pendHello = msgKey (asDisplay exHello)"
          "msgKey pendHelloAgain = msgKey (asDisplay exHello)"
    by (simp_all add: msgKey_def asDisplay_def exHello_def pendHello_def pendHelloAgain_def)
  have r: "reconcile [exHello] [pendHello, pendHelloAgain, pendWorld] = [pendWorld]"
    by (simp add: reconcile_filter isSynced_def exHello_def pendHello_def pendHelloAgain_def
          pendWorld_def)
  from reconcile_removes_all_copies [OF a, of "[pendHello, pendHelloAgain, pendWorld]"] a k r
  show ?thesis by simp
qed

text \<open>
  C6, as the claim states it, fails: with \<open>Hello\<close> pending twice in thread 7 and one
  confirmed \<open>Hello\<close> delivered, the pass removes both copies.
\<close>

theorem reconcile_one_for_one_counterexample:
  "msgKey pendHello = msgKey pendHelloAgain
   \<and> d_id pendHello \<noteq> d_id pendHelloAgain
   \<and> length [exHello] = 1
   \<and> length [pendHello, pendHelloAgain]
       - length (reconcile [exHello] [pendHello, pendHelloAgain]) = 2
   \<and> reconcile [exHello] [pendHello, pendHelloAgain] = []"
  by (simp add: reconcile_filter isSynced_def msgKey_def exHello_def pendHello_def
        pendHelloAgain_def)

text \<open>
  C7, as the code has it. When the response stream breaks (\<open>reader.read()\<close> rejects)
  during a send with a non-blank input, the text received so far had been published as
  streaming content, and the \<open>catch\<close> block then clears it: the streaming content is
  empty afterwards, so the view shows none of it. The pending buffer gained at most the
  user's own entry and the guest messages at most the user's own message: the broken
  stream's text is stored nowhere.
\<close>

theorem stream_abort_discards_content:
  assumes "trim (input s) \<noteq> []" and "\<not> isLoading s"
    and "aiReply env = Response status (Some (chunks, Aborted))"
  shows "streamingContent (state (handleSend env s)) = []
    \<and> (pendingMessages (state (handleSend env s)) = pendingMessages s \<or>
       (\<exists>tid. pendingMessages (state (handleSend env s)) =
                 pendingMessages s @ [pendingUserMsg env (trim (input s)) tid]))
    \<and> (guestMessages (state (handleSend env s)) = guestMessages s \<or>
       guestMessages (state (handleSend env s)) =
         guestMessages s @ [newUserMsg env (trim (input s))])
    \<and> (ok status \<and> chunks \<noteq> [] \<longrightarrow>
         readResponse (aiReply env) st = (Inl ReadError, st\<lparr>streamingContent := concat chunks\<rparr>))"
proof -
  let ?u = "trim (input s)"
  let ?st = "s\<lparr>input := [], isLoading := True, streamingContent := []\<rparr>"
  have last: "ok status \<and> chunks \<noteq> [] \<longrightarrow>
         readResponse (aiReply env) st = (Inl ReadError, st\<lparr>streamingContent := concat chunks\<rparr>)"
    using assms(3) by (simp add: readResponse_aborted)
  show ?thesis
  proof (cases "isAuthenticated s")
    case True
    from authTry_aborted [OF assms(3), of s ?u ?st] obtain e st' sent where
      r: "authTry env s ?u ?st = (Some e, st', sent)"
         "guestMessages st' = guestMessages ?st"
         "pendingMessages st' = pendingMessages ?st \<or>
            (\<exists>tid. pendingMessages st' = pendingMessages ?st @ [pendingUserMsg env ?u tid])"
      by blast
    have "handleSend env s = catchFinally (authTry env s ?u ?st)"
      using assms(1,2) True by (simp add: handleSend_def Let_def)
    with r last show ?thesis by (auto simp add: catchFinally_def)
  next
    case False
    show ?thesis
    proof (cases "freeRequestsUsed s \<ge> FREE_REQUEST_LIMIT")
      case True
      with False assms(1,2) last show ?thesis by (simp add: handleSend_def Let_def)
    next
      case lim: False
      from guestTry_aborted [OF assms(3), of s ?u ?st] obtain e st' sent where
        r: "guestTry env s ?u ?st = (Some e, st', sent)"
           "guestMessages st' = guestMessages ?st @ [newUserMsg env ?u]"
           "pendingMessages st' = pendingMessages ?st"
        by blast
      have "handleSend env s = catchFinally (guestTry env s ?u ?st)"
        using assms(1,2) False lim by (simp add: handleSend_def Let_def)
      with r last show ?thesis by (simp add: catchFinally_def)
    qed
  qed
qed

theorem stream_abort_discards_content_witness:
  "trim (input signedIn0) \<noteq> [] \<and> \<not> isLoading signedIn0
   \<and> aiReply envAbort = Response 200 (Some ([''Hel''], Aborted))
   \<and> ok 200 \<and> [''Hel''] \<noteq> []
   \<and> streamingContent (state (handleSend envAbort signedIn0)) = []
   \<and> readResponse (aiReply envAbort) signedIn0 =
       (Inl ReadError, signedIn0\<lparr>streamingContent := ''Hel''\<rparr>)"
proof -
  have a: "trim (input signedIn0) \<noteq> []"
    by (simp add: signedIn0_def guest0_def trim_def isSpace_def)
  have b: "\<not> isLoading signedIn0" by (simp add: signedIn0_def guest0_def)
  have c: "aiReply envAbort = Response 200 (Some ([''Hel''], Aborted))"
    by (simp add: envAbort_def)
  have d: "ok 200" by (simp add: ok_def)
  from stream_abort_discards_content [OF a b c, of signedIn0] a b c d
  show ?thesis by simp
qed

text \<open>
  C7, as the claim states it, fails: the stream of a signed-in send in thread 7 breaks
  after the chunk \<open>Hel\<close>. The chunk was published while it was read, but after the send
  the streaming content is empty and the view holds the confirmed greeting and the user's
  pending entry only.
\<close>

theorem stream_abort_preserved_counterexample:
  "readResponse (aiReply envAbort) signedIn0 =
     (Inl ReadError, signedIn0\<lparr>streamingContent := ''Hel''\<rparr>)
   \<and> logged (handleSend envAbort signedIn0) = Some ReadError
   \<and> streamingContent (state (handleSend envAbort signedIn0)) = []
   \<and> View (state (handleSend envAbort signedIn0)) =
       [asDisplay exWelcome,
        \<lparr>d_id = 9000, d_role = ''user'', d_content = ''Hi'', d_thread_id = Some 7,
          d_created_at = Some 9001\<rparr>]"
proof -
  have r: "readResponse (aiReply envAbort) signedIn0 =
     (Inl ReadError, signedIn0\<lparr>streamingContent := ''Hel''\<rparr>)"
    by (simp add: envAbort_def readResponse_aborted ok_def)
  have h: "handleSend envAbort signedIn0 =
     \<lparr>state = signedIn0\<lparr>input := [], pendingMessages :=
                 [\<lparr>d_id = 9000, d_role = ''user'', d_content = ''Hi'', d_thread_id = Some 7,
                   d_created_at = Some 9001\<rparr>]\<rparr>,
      calls = [AddMessageCall 7 ''user'' ''Hi'',
               AiChatCall 7 [(''assistant'', ''Welcome''), (''user'', ''Hi'')] ''openai/gpt-4o''],
      logged = Some ReadError\<rparr>"
    by (simp add: handleSend_def trim_def isSpace_def authTry_def obtainThread_def
          createForSend_def readResponse_aborted addMessage_def ok_def catchFinally_def pendingUserMsg_def
          dbMessages_def Let_def envAbort_def envOk_def signedIn0_def guest0_def
          exWelcome_def exOther_def)
  have v: "View (signedIn0\<lparr>input := [], pendingMessages :=
                 [\<lparr>d_id = 9000, d_role = ''user'', d_content = ''Hi'', d_thread_id = Some 7,
                   d_created_at = Some 9001\<rparr>]\<rparr>) =
       [asDisplay exWelcome,
        \<lparr>d_id = 9000, d_role = ''user'', d_content = ''Hi'', d_thread_id = Some 7,
          d_created_at = Some 9001\<rparr>]"
    by (simp add: View_def allMessages_def baseMessages_def streamingPart_def dbMessages_def
          alreadyExists_def asDisplay_def signedIn0_def guest0_def exWelcome_def exOther_def)
  have sc: "streamingContent (signedIn0\<lparr>input := [], pendingMessages :=
                 [\<lparr>d_id = 9000, d_role = ''user'', d_content = ''Hi'', d_thread_id = Some 7,
                   d_created_at = Some 9001\<rparr>]\<rparr>) = []"
    by (simp add: signedIn0_def guest0_def)
  from r h v sc show ?thesis by simp
qed

text \<open>
  C8, as the code has it. \<open>createThread\<close> returns the thread of the response on an ok
  status (with the clock as \<open>created_at\<close> when the response gives none), fails with the
  one error \<open>Failed to create chat\<close> on every other status, whatever the status is, and
  with the rejection of \<open>fetch\<close> when there is no response; \<open>addMessage\<close> does the same
  with \<open>Failed to add message\<close>. A \<open>handleSend\<close> requests each mutation at most once.
\<close>

theorem mutation_results:
  "(ok status \<longrightarrow>
      createThread title now (Response status (Some tjson)) =
        Inr \<lparr>cr_id = tj_id tjson, cr_title = tj_title tjson,
             cr_created_at = (case tj_created_at tjson of Some d \<Rightarrow> d | None \<Rightarrow> now)\<rparr>)
   \<and> (\<not> ok status \<longrightarrow> createThread title now (Response status tbody) = Inl FailedToCreateChat)
   \<and> createThread title now FetchRejected = Inl FetchFailed
   \<and> (ok status \<longrightarrow>
      addMessage now (Response status (Some mjson)) =
        Inr \<lparr>m_id = mj_id mjson, m_thread_id = mj_thread_id mjson, m_role = mj_role mjson,
             m_content = mj_content mjson,
             m_created_at = (case mj_created_at mjson of Some d \<Rightarrow> d | None \<Rightarrow> now)\<rparr>)
   \<and> (\<not> ok status \<longrightarrow> addMessage now (Response status mbody) = Inl FailedToAddMessage)
   \<and> addMessage now FetchRejected = Inl FetchFailed
   \<and> length (filter isCreateThreadCall (calls (handleSend env s))) \<le> 1
   \<and> length (filter isAddMessageCall (calls (handleSend env s))) \<le> 1"
  using handleSend_mutation_calls [of env s]
  by (simp add: createThread_def addMessage_def)

theorem mutation_results_witness:
  "ok 200 \<and> \<not> ok 401
   \<and> createThread ''Hi'' 8900 (threadReply envOk) =
       Inr \<lparr>cr_id = 7, cr_title = ''Hi'', cr_created_at = 8900\<rparr>
   \<and> createThread ''Hi'' 8900 (Response 401 None) = Inl FailedToCreateChat
   \<and> addMessage 9100 (Response 401 None) = Inl FailedToAddMessage
   \<and> calls (handleSend (envOk\<lparr>threadReply := Response 401 None\<rparr>)
              (signedIn0\<lparr>activeThreadId := None\<rparr>)) = [CreateThreadCall ''Hi'']"
proof -
  have a: "ok 200" and b: "\<not> ok 401" by (simp_all add: ok_def)
  have c: "threadReply envOk =
             Response 200 (Some \<lparr>tj_id = 7, tj_title = ''Hi'', tj_created_at = None\<rparr>)"
    by (simp add: envOk_def)
  have d: "calls (handleSend (envOk\<lparr>threadReply := Response 401 None\<rparr>)
              (signedIn0\<lparr>activeThreadId := None\<rparr>)) = [CreateThreadCall ''Hi'']"
    by (simp add: handleSend_def trim_def isSpace_def authTry_def obtainThread_def
          createThread_def createForSend_def ok_def catchFinally_def threadTitle_def Let_def
          envOk_def signedIn0_def guest0_def)
  from a b c d
    mutation_results [of 200 "''Hi''" 8900
      "\<lparr>tj_id = 7, tj_title = ''Hi'', tj_created_at = None\<rparr>"]
    mutation_results [of 401 "''Hi''" 8900 _ None]
    mutation_results [of 401 _ 9100 _ _ _ None]
  show ?thesis by simp
qed

text \<open>
  C8, as the claim states it, fails: a response that refuses the session (401) and a
  server failure (500) give the caller the same error, for both mutations.
\<close>

theorem mutation_errors_counterexample:
  "createThread ''New chat'' 0 (Response 401 None) = Inl FailedToCreateChat
   \<and> createThread ''New chat'' 0 (Response 500 None) = Inl FailedToCreateChat
   \<and> addMessage 0 (Response 401 None) = Inl FailedToAddMessage
   \<and> addMessage 0 (Response 500 None) = Inl FailedToAddMessage"
  by (simp add: createThread_def addMessage_def ok_def)

text \<open>
  C9. \<open>FREE_REQUEST_LIMIT\<close> is 1, and a guest who has used that many free requests
  sends nothing: no request goes out, no guest message and no pending entry is added, and
  an attempt with a non-blank input while nothing is loading shows the sign-in prompt and
  leaves the page not loading.
\<close>

theorem guest_limit_blocks:
  assumes "\<not> isAuthenticated s" and "freeRequestsUsed s \<ge> FREE_REQUEST_LIMIT"
  shows "FREE_REQUEST_LIMIT = 1
    \<and> calls (handleSend env s) = []
    \<and> guestMessages (state (handleSend env s)) = guestMessages s
    \<and> pendingMessages (state (handleSend env s)) = pendingMessages s
    \<and> (trim (input s) \<noteq> [] \<and> \<not> isLoading s \<longrightarrow>
         showAuthPrompt (state (handleSend env s)) \<and> \<not> isLoading (state (handleSend env s)))"
  using assms by (simp add: handleSend_def Let_def FREE_REQUEST_LIMIT_def)

theorem guest_limit_blocks_witness:
  "\<not> isAuthenticated ((state (handleSend envOk guest0))\<lparr>input := ''More''\<rparr>)
   \<and> freeRequestsUsed ((state (handleSend envOk guest0))\<lparr>input := ''More''\<rparr>) = 1
   \<and> trim ''More'' \<noteq> []
   \<and> calls (handleSend envOk ((state (handleSend envOk guest0))\<lparr>input := ''More''\<rparr>)) = []
   \<and> showAuthPrompt
        (state (handleSend envOk ((state (handleSend envOk guest0))\<lparr>input := ''More''\<rparr>)))
   \<and> length (guestMessages
        (state (handleSend envOk ((state (handleSend envOk guest0))\<lparr>input := ''More''\<rparr>)))) = 2"
proof -
  let ?s = "(state (handleSend envOk guest0))\<lparr>input := ''More''\<rparr>"
  have a: "\<not> isAuthenticated ?s" unfolding first_guest_send by (simp add: guest0_def)
  have b: "freeRequestsUsed ?s = 1" by (simp add: first_guest_send)
  have c: "trim ''More'' \<noteq> []" by (simp add: trim_def isSpace_def)
  have d: "input ?s = ''More''" "\<not> isLoading ?s"
    unfolding first_guest_send by (simp_all add: guest0_def)
  have e: "length (guestMessages ?s) = 2" by (simp add: first_guest_send)
  have lim: "freeRequestsUsed ?s \<ge> FREE_REQUEST_LIMIT" by (simp add: b FREE_REQUEST_LIMIT_def)
  from guest_limit_blocks [OF a lim, of envOk] a b c d e show ?thesis by simp
qed

text \<open>
  C10. A reconciliation pass leaves a subsequence of the buffer: entries are only
  dropped, never added, changed or reordered. When no pending entry has a confirmed match
  the buffer is left as it is.
\<close>

theorem reconcile_subseq:
  "subseq (reconcile dbMsgs pend) pend \<and>
   ((\<forall>p\<in>set pend. \<not> isSynced dbMsgs p) \<longrightarrow> reconcile dbMsgs pend = pend)"
  by (simp add: reconcile_filter)

theorem reconcile_subseq_witness:
  "\<not> isSynced [exHello] pendWorld
   \<and> reconcile [exHello] [pendWorld] = [pendWorld]
   \<and> subseq (reconcile [exHello] [pendHello, pendWorld]) [pendHello, pendWorld]
   \<and> reconcile [exHello] [pendHello, pendWorld] = [pendWorld]"
proof -
  have h: "\<not> isSynced [exHello] pendWorld"
    by (simp add: isSynced_def exHello_def pendWorld_def)
  have r: "reconcile [exHello] [pendHello, pendWorld] = [pendWorld]"
    by (simp add: reconcile_filter isSynced_def exHello_def pendHello_def pendWorld_def)
  from reconcile_subseq [of "[exHello]" "[pendWorld]"]
       reconcile_subseq [of "[exHello]" "[pendHello, pendWorld]"] h r
  show ?thesis by simp
qed

end
